theory Spec2Isabelle
  imports Complex_Main "HOL-Library.Multiset"
begin

section \<open>Delimiter detection (fb\_ads, all three analyzers)\<close>

text \<open>
  Each \<^verbatim>\<open>load_and_clean_data\<close> of \<^verbatim>\<open>2024_fb_ads\<close> opens the file in text mode, reads
  one line and compares two character counts:
  \<^verbatim>\<open>
  first_line = f.readline()
  delim = '\t' if first_line.count('\t') > first_line.count(',') else ','
  \<close>
  A file is its decoded text. \<^verbatim>\<open>readline\<close> of a text-mode file returns the characters up
  to and including the first line end; with Python's universal newlines a carriage
  return (alone or before a line feed) ends the line and is returned as a line feed.
\<close>

definition TAB :: char where
  "TAB = CHR 0x09"

definition COMMA :: char where
  "COMMA = CHR '',''"

definition LF :: char where
  "LF = CHR 0x0A"

definition CR :: char where
  "CR = CHR 0x0D"

fun readline :: "string \<Rightarrow> string" where
  "readline [] = []"
| "readline (c # cs) =
     (if c = LF then [LF] else if c = CR then [LF] else c # readline cs)"

text \<open>\<^verbatim>\<open>str.count\<close> of a one-character pattern is the number of its occurrences.\<close>

definition str_count :: "string \<Rightarrow> char \<Rightarrow> nat" where
  "str_count s c = length (filter (\<lambda>x. x = c) s)"

text \<open>\<^verbatim>\<open>pure_python_stats.py\<close>, lines 49-50.\<close>

definition python_detect_delim :: "string \<Rightarrow> char" where
  "python_detect_delim content =
     (let first_line = readline content
      in if str_count first_line TAB > str_count first_line COMMA then TAB else COMMA)"

text \<open>\<^verbatim>\<open>pandas_stats.py\<close>, lines 50-51.\<close>

definition pandas_detect_delim :: "string \<Rightarrow> char" where
  "pandas_detect_delim content =
     (let first_line = readline content
      in if str_count first_line TAB > str_count first_line COMMA then TAB else COMMA)"

text \<open>\<^verbatim>\<open>polars_stats.py\<close>, lines 58-59.\<close>

definition polars_detect_delim :: "string \<Rightarrow> char" where
  "polars_detect_delim content =
     (let first_line = readline content
      in if str_count first_line TAB > str_count first_line COMMA then TAB else COMMA)"

section \<open>Descriptive statistics: \<^verbatim>\<open>PythonAnalyzer._fast_stats\<close>\<close>

text \<open>
  The numbers of a column are Python ints and floats. They are modelled as real numbers:
  the arithmetic of \<^verbatim>\<open>_fast_stats\<close> is the exact one, and the rounding of doubles (and
  the values \<^verbatim>\<open>inf\<close> and \<^verbatim>\<open>nan\<close>) is outside the model. The dictionary the function
  returns is a record; \<^verbatim>\<open>None\<close> is \<^const>\<open>None\<close>.
\<close>

record stats =
  count :: nat
  mean :: "real option"
  std :: "real option"
  min_val :: "real option"
  max_val :: "real option"
  median :: "real option"

text \<open>The builtins \<^verbatim>\<open>min\<close> and \<^verbatim>\<open>max\<close> scan the list once, keeping the best so far.\<close>

fun py_min :: "real list \<Rightarrow> real" where
  "py_min [] = 0"
| "py_min (x # xs) = fold (\<lambda>y m. if y < m then y else m) xs x"

fun py_max :: "real list \<Rightarrow> real" where
  "py_max [] = 0"
| "py_max (x # xs) = fold (\<lambda>y m. if y > m then y else m) xs x"

text \<open>
  \<^verbatim>\<open>_fast_stats\<close>, lines 135-153. The first two equations are the early returns for the empty
  and the one-element list; \<^verbatim>\<open>py_min\<close> and \<^verbatim>\<open>py_max\<close> are only called on a list of two or
  more elements. \<^verbatim>\<open>variance ** 0.5\<close> is \<open>powr\<close>, \<^verbatim>\<open>sorted\<close> is \<^const>\<open>sort\<close> and
  \<^verbatim>\<open>n//2\<close> is \<open>div\<close>.
\<close>

fun fast_stats :: "real list \<Rightarrow> stats" where
  "fast_stats [] =
     \<lparr>count = 0, mean = None, std = None, min_val = None, max_val = None, median = None\<rparr>"
| "fast_stats [v] =
     \<lparr>count = 1, mean = Some v, std = Some 0, min_val = Some v, max_val = Some v,
      median = Some v\<rparr>"
| "fast_stats vals =
     (let n = length vals;
          total = sum_list vals;
          mean = total / real n;
          min_val = py_min vals;
          max_val = py_max vals;
          variance = sum_list (map (\<lambda>x. (x - mean) ^ 2) vals) / real n;
          std = variance powr 0.5;
          sorted_vals = sort vals;
          median = (if n mod 2 \<noteq> 0 then sorted_vals ! (n div 2)
                    else (sorted_vals ! (n div 2 - 1) + sorted_vals ! (n div 2)) / 2)
      in \<lparr>count = n, mean = Some mean, std = Some std, min_val = Some min_val,
          max_val = Some max_val, median = Some median\<rparr>)"


section \<open>The pure-Python fb\_ads analyzer: data model\<close>

text \<open>
  A cell of the loaded table is \<^verbatim>\<open>None\<close>, a string, an int or a float (after the
  conversion of a numeric column), or the object \<^verbatim>\<open>json.loads\<close> returned for a complex
  field. Floats are real numbers, as in \<^verbatim>\<open>_fast_stats\<close>.
\<close>

datatype 'j cell = CNone | CStr string | CInt int | CFloat real | CJson 'j

text \<open>
  The exceptions of the model. All of them derive from Python's \<^verbatim>\<open>Exception\<close>, the class the
  handlers of the analyzers catch.
\<close>

datatype exn =
  OSError | StopIteration | ReaderError | ZeroDivisionError | ValueError | IndexError | KeyError
  | TypeError

text \<open>
  The library functions the analyzer calls are parameters of the model, since their code
  is not part of the repository: \<^verbatim>\<open>csv.reader\<close> (the rows it yields for a delimiter and a
  text, and the exception that ends the iteration early, if any), \<^verbatim>\<open>float\<close> and \<^verbatim>\<open>int\<close>
  on a string (\<^const>\<open>None\<close> when they raise), \<^verbatim>\<open>json.loads\<close>, and \<^verbatim>\<open>str\<close> on an int, a
  float and a parsed JSON object, and the truth value of a parsed JSON object.
\<close>

record 'j builtins =
  csv_reader :: "char \<Rightarrow> string \<Rightarrow> string list list \<times> exn option"
  py_float :: "string \<Rightarrow> real option"
  py_int :: "string \<Rightarrow> int option"
  json_loads :: "string \<Rightarrow> 'j option"
  str_int :: "int \<Rightarrow> string"
  str_float :: "real \<Rightarrow> string"
  str_json :: "'j \<Rightarrow> string"
  truthy_json :: "'j \<Rightarrow> bool"

text \<open>The file the analyzer is given: \<^verbatim>\<open>open\<close> raises, or yields the decoded text.\<close>

datatype source_file = Unreadable | Text string

text \<open>
  The attributes of \<^verbatim>\<open>PythonAnalyzer\<close> (\<^verbatim>\<open>filepath\<close> is the argument of the load step).
\<close>

record 'j analyzer =
  data :: "'j cell list list"
  headers :: "string list"
  numeric_columns :: "string list"
  categorical_columns :: "string list"

definition new_analyzer :: "'j analyzer" where
  "new_analyzer = \<lparr>data = [], headers = [], numeric_columns = [], categorical_columns = []\<rparr>"

subsection \<open>Strings\<close>

text \<open>\<^verbatim>\<open>str.strip()\<close> removes the leading and trailing white space (here: of ASCII).\<close>

definition is_space :: "char \<Rightarrow> bool" where
  "is_space c = (c \<in> set [CHR 0x09, CHR 0x0A, CHR 0x0B, CHR 0x0C, CHR 0x0D,
                            CHR 0x1C, CHR 0x1D, CHR 0x1E, CHR 0x1F, CHR 0x20])"

definition strip :: "string \<Rightarrow> string" where
  "strip s = rev (dropWhile is_space (rev (dropWhile is_space s)))"

text \<open>\<^verbatim>\<open>sep.join(parts)\<close>.\<close>

fun join :: "string \<Rightarrow> string list \<Rightarrow> string" where
  "join sep [] = []"
| "join sep [x] = x"
| "join sep (x # y # ys) = x @ sep @ join sep (y # ys)"

definition null_tokens :: "string list" where
  "null_tokens = ['''', ''null'', ''NULL'', ''None'', ''N/A'', ''NA'']"

definition complex_fields :: "string list" where
  "complex_fields = [''delivery_by_region'', ''demographic_distribution'', ''publisher_platforms'']"

text \<open>\<^verbatim>\<open>str(cell)\<close>.\<close>

definition str_cell :: "'j builtins \<Rightarrow> 'j cell \<Rightarrow> string" where
  "str_cell B c =
     (case c of CNone \<Rightarrow> ''None'' | CStr s \<Rightarrow> s | CInt k \<Rightarrow> str_int B k
      | CFloat r \<Rightarrow> str_float B r | CJson j \<Rightarrow> str_json B j)"

text \<open>\<^verbatim>\<open>isinstance(cell, (int, float))\<close> and the number it holds.\<close>

definition is_number :: "'j cell \<Rightarrow> bool" where
  "is_number c = (case c of CInt k \<Rightarrow> True | CFloat r \<Rightarrow> True | _ \<Rightarrow> False)"

definition number_of :: "'j cell \<Rightarrow> real" where
  "number_of c = (case c of CInt k \<Rightarrow> real_of_int k | CFloat r \<Rightarrow> r | _ \<Rightarrow> 0)"

section \<open>\<^verbatim>\<open>PythonAnalyzer.load_and_clean_data\<close>\<close>

text \<open>
  What the analyzer prints is a list of report items. An item keeps the values that are
  printed, not their layout: the number formatting of \<^verbatim>\<open>_fmt\<close>, the padding of \<^verbatim>\<open>_table\<close> and
  \<^verbatim>\<open>_box\<close>, the timings, the upper-casing of a title and the progress line printed every
  10000 rows are left out. \<^verbatim>\<open>LoadError\<close> is the message of the handler of the load step,
  \<^verbatim>\<open>ErrorMsg\<close> the message of the handler of \<^verbatim>\<open>run_complete_analysis\<close>; \<^verbatim>\<open>NumericHeader\<close>
  and \<^verbatim>\<open>CategoricalHeader\<close> are the titles of the two statistics tables.
\<close>

datatype report =
    Banner
  | Step1Header
  | LoadedRows nat
  | RemovingDuplicates
  | LoadingSummary nat nat nat nat
  | LoadError exn
  | ErrorMsg exn
  | NoDataLoaded
  | Step2Header
  | DatasetOverview nat nat nat nat nat real
  | NumericHeader
  | NumericRow string nat nat "real option" "real option" "real option" "real option"
  | CategoricalHeader
  | CategoricalRow string nat nat nat string nat
  | StatsComputed
  | Step3Header string
  | MissingColumns "string list"
  | GroupsCreated nat
  | GroupSizes nat real real real
  | TopGroupsTitle
  | TopGroup nat string nat
  | NumericStatsTitle
  | GroupTitle nat string nat
  | GroupNumeric string real real real
  | Completed

text \<open>\<^verbatim>\<open>_parse_json_safe\<close>, lines 35-40.\<close>

definition parse_json_safe :: "'j builtins \<Rightarrow> string \<Rightarrow> 'j cell" where
  "parse_json_safe B value =
     (if value = [] \<or> value \<in> set [''{}'', ''[]'', ''''] then CNone
      else if \<not> (CHR ''{'' \<in> set value \<or> CHR ''['' \<in> set value) then CStr value
      else (case json_loads B value of Some j \<Rightarrow> CJson j | None \<Rightarrow> CStr value))"

text \<open>Lines 64-78: a row is padded with empty strings and cut to the number of headers,
  then each value is cleaned.\<close>

definition fit_row :: "nat \<Rightarrow> string list \<Rightarrow> string list" where
  "fit_row n row = take n (row @ replicate (n - length row) [])"

definition process_cell :: "'j builtins \<Rightarrow> string \<Rightarrow> string \<Rightarrow> 'j cell" where
  "process_cell B header val =
     (if val = [] \<or> strip val \<in> set null_tokens then CNone
      else if header \<in> set complex_fields then parse_json_safe B val
      else CStr (strip val))"

definition process_row :: "'j builtins \<Rightarrow> string list \<Rightarrow> string list \<Rightarrow> 'j cell list" where
  "process_row B hdrs row =
     map (\<lambda>(h, v). process_cell B h v) (zip hdrs (fit_row (length hdrs) row))"

text \<open>
  Lines 82-112, the type detection. \<^verbatim>\<open>float(val)\<close> succeeds on a cell when the cell is a
  number or a string that \<^verbatim>\<open>float\<close> accepts. The conversion of a numeric column (line 109)
  leaves a cell as it is when the conversion raises.
\<close>

definition float_ok :: "'j builtins \<Rightarrow> 'j cell \<Rightarrow> bool" where
  "float_ok B c =
     (case c of CStr s \<Rightarrow> py_float B s \<noteq> None | CInt k \<Rightarrow> True | CFloat r \<Rightarrow> True
      | _ \<Rightarrow> False)"

definition convert_cell :: "'j builtins \<Rightarrow> 'j cell \<Rightarrow> 'j cell" where
  "convert_cell B c =
     (case c of
        CStr s \<Rightarrow>
          (if CHR ''.'' \<in> set s
           then (case py_float B s of Some r \<Rightarrow> CFloat r | None \<Rightarrow> c)
           else (case py_int B s of Some k \<Rightarrow> CInt k | None \<Rightarrow> c))
      | _ \<Rightarrow> c)"

definition sample_of :: "'a list \<Rightarrow> 'a list" where
  "sample_of raw_data =
     (if length raw_data > 1000 then take (min 1000 (length raw_data)) raw_data else raw_data)"

definition column_vals :: "nat \<Rightarrow> 'j cell list list \<Rightarrow> 'j cell list" where
  "column_vals i sample_data = filter (\<lambda>c. c \<noteq> CNone) (map (\<lambda>row. row ! i) sample_data)"

definition numeric_share_ok :: "'j builtins \<Rightarrow> 'j cell list \<Rightarrow> bool" where
  "numeric_share_ok B vals =
     (real (length (filter (float_ok B) (take 100 vals))) / real (length (take 100 vals))
        \<ge> 0.8)"

text \<open>
  The loop over \<^verbatim>\<open>enumerate(self.headers)\<close>. Its state is the table being converted and the
  two lists of column names. The sample is taken from the current table at each column:
  \<^verbatim>\<open>sample_data\<close> shares its rows with \<^verbatim>\<open>raw_data\<close>, so a conversion shows in both.
\<close>

fun detect_types ::
  "'j builtins \<Rightarrow> (nat \<times> string) list \<Rightarrow> 'j cell list list \<times> string list \<times> string list
     \<Rightarrow> 'j cell list list \<times> string list \<times> string list" where
  "detect_types B [] st = st"
| "detect_types B ((i, header) # rest) (raw_data, num, cat) =
     (if header \<in> set complex_fields then detect_types B rest (raw_data, num, cat @ [header])
      else
        (let vals = column_vals i (sample_of raw_data)
         in if vals = [] then detect_types B rest (raw_data, num, cat @ [header])
            else if numeric_share_ok B vals
            then detect_types B rest
                   (map (\<lambda>row. row[i := convert_cell B (row ! i)]) raw_data, num @ [header], cat)
            else detect_types B rest (raw_data, num, cat @ [header])))"

text \<open>Lines 114-122, the removal of duplicates by the joined string of a row.\<close>

definition row_key :: "'j builtins \<Rightarrow> 'j cell list \<Rightarrow> string" where
  "row_key B row = join ''|'' (map (\<lambda>c. if c \<noteq> CNone then str_cell B c else '''') row)"

fun remove_duplicates ::
  "'j builtins \<Rightarrow> 'j cell list list \<Rightarrow> string set \<Rightarrow> 'j cell list list" where
  "remove_duplicates B [] seen = []"
| "remove_duplicates B (row # rows) seen =
     (let key = row_key B row
      in if key \<notin> seen then row # remove_duplicates B rows (insert key seen)
         else remove_duplicates B rows seen)"

text \<open>
  The whole step. Every exception is caught by the handler of line 132, which prints it;
  the assignments made before it stay (\<^verbatim>\<open>self.headers\<close> is assigned at line 54, the
  other attributes after the loops).
\<close>

definition load_and_clean_data ::
  "'j builtins \<Rightarrow> source_file \<Rightarrow> 'j analyzer \<Rightarrow> 'j analyzer \<times> report list" where
  "load_and_clean_data B file s =
     (case file of
        Unreadable \<Rightarrow> (s, [Step1Header, LoadError OSError])
      | Text content \<Rightarrow>
          (let delim = python_detect_delim content;
               rd = csv_reader B delim content
           in case fst rd of
                [] \<Rightarrow>
                  (s, [Step1Header,
                       LoadError (case snd rd of Some e \<Rightarrow> e | None \<Rightarrow> StopIteration)])
              | h # rest \<Rightarrow>
                  (let hdrs = map strip h;
                       s1 = s\<lparr>headers := hdrs\<rparr>
                   in case snd rd of
                        Some e \<Rightarrow> (s1, [Step1Header, LoadError e])
                      | None \<Rightarrow>
                          (let raw_data = map (process_row B hdrs) rest;
                               dt = detect_types B (enumerate 0 hdrs)
                                      (raw_data, numeric_columns s1, categorical_columns s1);
                               dat = remove_duplicates B (fst dt) {}
                           in (s1\<lparr>numeric_columns := fst (snd dt),
                                  categorical_columns := snd (snd dt),
                                  data := dat\<rparr>,
                               [Step1Header, LoadedRows (length raw_data), RemovingDuplicates,
                                LoadingSummary (length dat) (length raw_data - length dat)
                                  (length (fst (snd dt))) (length (snd (snd dt)))])))))"

subsection \<open>An instance of the library functions, for running the model\<close>

text \<open>
  To run the model on a concrete file the library parameters need values. The instance
  below covers the plain cases only, where it agrees with Python: a reader for text
  without quotes (one row per line, fields split at the delimiter, an empty line gives
  the empty row), \<^verbatim>\<open>float\<close> and \<^verbatim>\<open>int\<close> on unsigned decimal digit strings, \<^verbatim>\<open>str\<close> of a
  natural number and of a float with an integral value, and a \<^verbatim>\<open>json.loads\<close> that rejects
  its input.
\<close>

fun split_on :: "char \<Rightarrow> string \<Rightarrow> string list" where
  "split_on d [] = [[]]"
| "split_on d (c # cs) =
     (if c = d then [] # split_on d cs
      else (case split_on d cs of [] \<Rightarrow> [[c]] | r # rs \<Rightarrow> (c # r) # rs))"

definition text_lines :: "string \<Rightarrow> string list" where
  "text_lines t = (let ps = split_on LF t in if last ps = [] then butlast ps else ps)"

definition plain_reader :: "char \<Rightarrow> string \<Rightarrow> string list list \<times> exn option" where
  "plain_reader d t = (map (\<lambda>l. if l = [] then [] else split_on d l) (text_lines t), None)"

definition is_digit :: "char \<Rightarrow> bool" where
  "is_digit c = (c \<in> set ''0123456789'')"

definition digits_value :: "string \<Rightarrow> nat" where
  "digits_value s = foldl (\<lambda>n c. 10 * n + (of_char c - 48)) 0 s"

definition digits_float :: "string \<Rightarrow> real option" where
  "digits_float s = (if s \<noteq> [] \<and> list_all is_digit s then Some (real (digits_value s)) else None)"

definition digits_int :: "string \<Rightarrow> int option" where
  "digits_int s = (if s \<noteq> [] \<and> list_all is_digit s then Some (int (digits_value s)) else None)"

function show_nat :: "nat \<Rightarrow> string" where
  "show_nat n =
     (if n < 10 then [char_of (48 + n)] else show_nat (n div 10) @ [char_of (48 + n mod 10)])"
  by pat_completeness auto
termination
  by (relation "measure id") auto

definition plain_builtins :: "unit builtins" where
  "plain_builtins =
     \<lparr>csv_reader = plain_reader,
      py_float = digits_float,
      py_int = digits_int,
      json_loads = (\<lambda>s. None),
      str_int = (\<lambda>k. show_nat (nat k)),
      str_float = (\<lambda>r. show_nat (nat \<lfloor>r\<rfloor>) @ ''.0''),
      str_json = (\<lambda>u. []),
      truthy_json = (\<lambda>u. False)\<rparr>"

text \<open>
  The classification rule of a column, stated on the table as loaded (before any
  conversion): the column is not a complex field, its non-null values among the first
  1000 rows are not empty, and at least 80 in 100 of the first 100 of them are accepted
  by \<^verbatim>\<open>float\<close>.
\<close>

definition sampled_values :: "nat \<Rightarrow> 'j cell list list \<Rightarrow> 'j cell list" where
  "sampled_values i raw_data = take 100 (column_vals i (take 1000 raw_data))"





subsection \<open>Example files\<close>


definition pipe_file :: string where
  "pipe_file = ''x,y'' @ [LF] @ ''a|b,c'' @ [LF] @ ''a,b|c'' @ [LF]"

section \<open>Grouping\<close>

text \<open>
  \<^verbatim>\<open>groups = defaultdict(list)\<close> followed by \<^verbatim>\<open>groups[key].append(row)\<close>: a dictionary keeps
  its keys in the order of their first insertion, so it is a list of pairs of a key and
  the rows of the key.
\<close>

fun group_add :: "'k \<Rightarrow> 'r \<Rightarrow> ('k \<times> 'r list) list \<Rightarrow> ('k \<times> 'r list) list" where
  "group_add k r [] = [(k, [r])]"
| "group_add k r ((k', rs) # g) =
     (if k' = k then (k', rs @ [r]) # g else (k', rs) # group_add k r g)"

text \<open>
  The grouping loop; the key of a row may raise (an index or a dictionary key that the
  row does not have), which ends the loop.
\<close>

fun group_loop ::
  "('r \<Rightarrow> exn + 'k) \<Rightarrow> 'r list \<Rightarrow> ('k \<times> 'r list) list \<Rightarrow> exn + ('k \<times> 'r list) list" where
  "group_loop key [] g = Inr g"
| "group_loop key (row # rows) g =
     (case key row of Inl e \<Rightarrow> Inl e | Inr k \<Rightarrow> group_loop key rows (group_add k row g))"

text \<open>
  \<^verbatim>\<open>sorted(groups.items(), key=lambda x: len(x[1]), reverse=True)\<close> and
  \<^verbatim>\<open>sorted(d.items(), key=lambda x: -len(x[1]))\<close>: a stable sort, largest group first,
  groups of equal size in dictionary order.
\<close>

definition by_size_desc :: "('k \<times> 'r list) list \<Rightarrow> ('k \<times> 'r list) list" where
  "by_size_desc groups = sort_key (\<lambda>g. - int (length (snd g))) groups"

subsection \<open>The pure-Python fb\_ads analyzer\<close>

text \<open>\<^verbatim>\<open>self.headers.index(c)\<close> and \<^verbatim>\<open>row[i]\<close>, with their exceptions.\<close>

fun list_index :: "'a list \<Rightarrow> 'a \<Rightarrow> exn + nat" where
  "list_index [] x = Inl ValueError"
| "list_index (y # ys) x =
     (if y = x then Inr 0
      else (case list_index ys x of Inl e \<Rightarrow> Inl e | Inr i \<Rightarrow> Inr (Suc i)))"

definition cell_at :: "'a list \<Rightarrow> nat \<Rightarrow> exn + 'a" where
  "cell_at row i = (if i < length row then Inr (row ! i) else Inl IndexError)"

text \<open>A list comprehension whose element expression may raise.\<close>

fun map_exn :: "('a \<Rightarrow> exn + 'b) \<Rightarrow> 'a list \<Rightarrow> exn + 'b list" where
  "map_exn f [] = Inr []"
| "map_exn f (x # xs) =
     (case f x of Inl e \<Rightarrow> Inl e
      | Inr y \<Rightarrow> (case map_exn f xs of Inl e \<Rightarrow> Inl e | Inr ys \<Rightarrow> Inr (y # ys)))"

text \<open>Line 225: the key of a row, the tuple of the strings of its grouping cells.\<close>

definition group_key :: "'j builtins \<Rightarrow> nat list \<Rightarrow> 'j cell list \<Rightarrow> exn + string list" where
  "group_key B indices row =
     map_exn (\<lambda>i. case cell_at row i of Inl e \<Rightarrow> Inl e
                   | Inr c \<Rightarrow> Inr (if c \<noteq> CNone then str_cell B c else ''None'')) indices"

text \<open>
  Lines 215-228 of \<^verbatim>\<open>perform_groupby_analysis\<close>: the check of the grouping columns, the
  grouping and the sorted list of groups. \<^const>\<open>None\<close> is the early return after
  \<^verbatim>\<open>Missing columns\<close>.
\<close>

definition missing_columns :: "'j analyzer \<Rightarrow> string list \<Rightarrow> string list" where
  "missing_columns s group_cols = filter (\<lambda>c. c \<notin> set (headers s)) group_cols"

definition build_groups ::
  "'j builtins \<Rightarrow> 'j analyzer \<Rightarrow> string list \<Rightarrow> exn + (string list \<times> 'j cell list list) list" where
  "build_groups B s group_cols =
     (case map_exn (list_index (headers s)) group_cols of
        Inl e \<Rightarrow> Inl e
      | Inr indices \<Rightarrow> group_loop (group_key B indices) (data s) [])"

definition group_list_of ::
  "'j builtins \<Rightarrow> 'j analyzer \<Rightarrow> string list \<Rightarrow> exn + (string list \<times> 'j cell list list) list" where
  "group_list_of B s group_cols =
     (case build_groups B s group_cols of Inl e \<Rightarrow> Inl e | Inr groups \<Rightarrow> Inr (by_size_desc groups))"




subsection \<open>The pure-Python tw\_posts analyzer\<close>















subsection \<open>Example tables\<close>

definition small_table :: "unit analyzer" where
  "small_table =
     \<lparr>data = [[CStr ''a'', CInt 1], [CStr ''b'', CInt 2], [CStr ''a'', CInt 3]],
      headers = [''g'', ''n''], numeric_columns = [''n''], categorical_columns = [''g'']\<rparr>"


section \<open>The reporting steps of the pure-Python fb\_ads analyzer\<close>

subsection \<open>Printing and exceptions\<close>

text \<open>
  A computation that prints and may raise: what it printed, and the exception it raised
  or the value it returned.
\<close>

type_synonym 'a io = "report list \<times> (exn + 'a)"

definition io_ret :: "'a \<Rightarrow> 'a io" where
  "io_ret x = ([], Inr x)"

definition io_raise :: "exn \<Rightarrow> 'a io" where
  "io_raise e = ([], Inl e)"

definition io_print :: "report \<Rightarrow> unit io" where
  "io_print r = ([r], Inr ())"

definition io_lift :: "exn + 'a \<Rightarrow> 'a io" where
  "io_lift v = ([], v)"

definition io_bind :: "'a io \<Rightarrow> ('a \<Rightarrow> 'b io) \<Rightarrow> 'b io" where
  "io_bind m f =
     (case snd m of Inl e \<Rightarrow> (fst m, Inl e)
      | Inr x \<Rightarrow> (fst m @ fst (f x), snd (f x)))"

definition io_then :: "unit io \<Rightarrow> 'b io \<Rightarrow> 'b io" where
  "io_then m n = io_bind m (\<lambda>u. n)"

fun io_for :: "'a list \<Rightarrow> ('a \<Rightarrow> unit io) \<Rightarrow> unit io" where
  "io_for [] f = io_ret ()"
| "io_for (x # xs) f = io_then (f x) (io_for xs f)"

text \<open>
  A method of the analyzer: from the attributes before the call to the attributes after
  it, with what it printed and how it ended.
\<close>

type_synonym ('s, 'a) action = "'s \<Rightarrow> 's \<times> 'a io"

definition st_bind :: "('s, 'a) action \<Rightarrow> ('a \<Rightarrow> ('s, 'b) action) \<Rightarrow> ('s, 'b) action" where
  "st_bind m f = (\<lambda>s.
     (case snd (snd (m s)) of
        Inl e \<Rightarrow> (fst (m s), fst (snd (m s)), Inl e)
      | Inr x \<Rightarrow>
          (fst (f x (fst (m s))),
           fst (snd (m s)) @ fst (snd (f x (fst (m s)))),
           snd (snd (f x (fst (m s)))))))"

definition st_then :: "('s, unit) action \<Rightarrow> ('s, 'b) action \<Rightarrow> ('s, 'b) action" where
  "st_then m n = st_bind m (\<lambda>u. n)"

definition st_print :: "report \<Rightarrow> ('s, unit) action" where
  "st_print r = (\<lambda>s. (s, io_print r))"

definition st_skip :: "('s, unit) action" where
  "st_skip = (\<lambda>s. (s, io_ret ()))"

text \<open>\<^verbatim>\<open>try: ... except Exception as e: print(f"Error: {e}")\<close>.\<close>

definition st_catch :: "('s, unit) action \<Rightarrow> ('s, unit) action" where
  "st_catch m = (\<lambda>s.
     (case snd (snd (m s)) of
        Inl e \<Rightarrow> (fst (m s), fst (snd (m s)) @ [ErrorMsg e], Inr ())
      | Inr u \<Rightarrow> m s))"

subsection \<open>\<^verbatim>\<open>perform_groupby_analysis\<close>\<close>

text \<open>Lines 232-239: the box of the group sizes, printed when there is a group.\<close>

definition print_stats3 :: "stats \<Rightarrow> (real \<Rightarrow> real \<Rightarrow> real \<Rightarrow> report) \<Rightarrow> unit io" where
  "print_stats3 st item =
     (case mean st of
        None \<Rightarrow> io_raise TypeError
      | Some m \<Rightarrow>
          (case min_val st of
             None \<Rightarrow> io_raise TypeError
           | Some lo \<Rightarrow>
               (case max_val st of
                  None \<Rightarrow> io_raise TypeError
                | Some hi \<Rightarrow> io_print (item m lo hi))))"

definition print_group_sizes :: "(string list \<times> 'j cell list list) list \<Rightarrow> unit io" where
  "print_group_sizes group_list =
     (let sizes = map (\<lambda>g. real (length (snd g))) group_list
      in if sizes \<noteq> []
         then print_stats3 (fast_stats sizes) (GroupSizes (length group_list))
         else io_ret ())"

text \<open>
  Lines 242-245: one line for each of the first ten groups of the sorted list. The name is
  \<^verbatim>\<open>key[0]\<close>, or \<^verbatim>\<open>f"{key[0]}+{len(key)-1}more"\<close> for a key of several columns.
\<close>

definition group_name :: "string list \<Rightarrow> exn + string" where
  "group_name key =
     (case key of
        [] \<Rightarrow> Inl IndexError
      | k0 # ks \<Rightarrow>
          Inr (if length key = 1 then k0
               else k0 @ ''+'' @ show_nat (length key - 1) @ ''more''))"

definition print_top_group :: "nat \<times> string list \<times> 'j cell list list \<Rightarrow> unit io" where
  "print_top_group = (\<lambda>(i, key, rows).
     (case group_name key of
        Inl e \<Rightarrow> io_raise e
      | Inr name \<Rightarrow> io_print (TopGroup (i + 1) (take 30 name) (length rows))))"

definition print_top_groups :: "(string list \<times> 'j cell list list) list \<Rightarrow> unit io" where
  "print_top_groups group_list =
     io_then (io_print TopGroupsTitle)
       (io_for (enumerate 0 (take 10 group_list)) print_top_group)"

text \<open>
  Lines 253-254 (and 174-175): the numbers of a column in a list of rows,
  \<^verbatim>\<open>[row[idx] for row in rows if isinstance(row[idx], (int, float))]\<close>.
\<close>

definition column_numbers :: "'j analyzer \<Rightarrow> 'j cell list list \<Rightarrow> string \<Rightarrow> exn + real list" where
  "column_numbers s rows col =
     (case list_index (headers s) col of
        Inl e \<Rightarrow> Inl e
      | Inr idx \<Rightarrow>
          (case map_exn (\<lambda>row. cell_at row idx) rows of
             Inl e \<Rightarrow> Inl e
           | Inr cells \<Rightarrow> Inr (map number_of (filter is_number cells))))"

text \<open>Lines 248-257: the numeric statistics of the first three groups.\<close>

definition print_group_column :: "'j analyzer \<Rightarrow> 'j cell list list \<Rightarrow> string \<Rightarrow> unit io" where
  "print_group_column s rows col =
     io_bind (io_lift (column_numbers s rows col)) (\<lambda>vals.
       if vals \<noteq> [] then print_stats3 (fast_stats vals) (GroupNumeric (take 15 col))
       else io_ret ())"

definition print_group_stats ::
  "'j analyzer \<Rightarrow> nat \<times> string list \<times> 'j cell list list \<Rightarrow> unit io" where
  "print_group_stats s = (\<lambda>(i, key, rows).
     (case key of
        [] \<Rightarrow> io_raise IndexError
      | k0 # ks \<Rightarrow>
          io_then (io_print (GroupTitle (i + 1) (take 30 k0) (length rows)))
            (io_for (take 3 (numeric_columns s)) (print_group_column s rows))))"

definition print_numeric_stats ::
  "'j analyzer \<Rightarrow> (string list \<times> 'j cell list list) list \<Rightarrow> unit io" where
  "print_numeric_stats s group_list =
     (if numeric_columns s \<noteq> [] \<and> length group_list > 0
      then io_then (io_print NumericStatsTitle)
             (io_for (enumerate 0 (take 3 group_list)) (print_group_stats s))
      else io_ret ())"

text \<open>The method, lines 211-257. It assigns to no attribute.\<close>

definition groupby_report :: "'j builtins \<Rightarrow> 'j analyzer \<Rightarrow> string list \<Rightarrow> string \<Rightarrow> unit io" where
  "groupby_report B s group_cols name =
     io_then (io_print (Step3Header name))
       (let missing = missing_columns s group_cols
        in if missing \<noteq> [] then io_print (MissingColumns missing)
           else io_bind (io_lift (group_list_of B s group_cols)) (\<lambda>group_list.
                  io_then (io_print (GroupsCreated (length group_list)))
                    (io_then (print_group_sizes group_list)
                       (io_then (print_top_groups group_list)
                          (print_numeric_stats s group_list)))))"

definition perform_groupby_analysis ::
  "'j builtins \<Rightarrow> string list \<Rightarrow> string \<Rightarrow> ('j analyzer, unit) action" where
  "perform_groupby_analysis B group_cols name = (\<lambda>s. (s, groupby_report B s group_cols name))"

subsection \<open>\<^verbatim>\<open>compute_column_statistics\<close>\<close>

text \<open>Lines 172-185: the row of a numeric column in the statistics table.\<close>

definition numeric_row :: "'j analyzer \<Rightarrow> string \<Rightarrow> exn + report" where
  "numeric_row s col =
     (case column_numbers s (data s) col of
        Inl e \<Rightarrow> Inl e
      | Inr vals \<Rightarrow>
          Inr (if vals \<noteq> []
               then (let st = fast_stats vals
                     in NumericRow (take 20 col) (count st) (length (data s) - count st)
                          (mean st) (std st) (min_val st) (max_val st))
               else NumericRow (take 20 col) 0 (length (data s)) None None None None))"

text \<open>
  \<^verbatim>\<open>Counter(vals)\<close> keeps the values in the order of their first occurrence;
  \<^verbatim>\<open>most_common(1)[0]\<close> is the first value with the greatest count.
\<close>

fun tally_add :: "'a \<Rightarrow> ('a \<times> nat) list \<Rightarrow> ('a \<times> nat) list" where
  "tally_add x [] = [(x, 1)]"
| "tally_add x ((y, n) # t) = (if y = x then (y, n + 1) # t else (y, n) # tally_add x t)"

definition counter :: "'a list \<Rightarrow> ('a \<times> nat) list" where
  "counter vals = foldl (\<lambda>t x. tally_add x t) [] vals"

fun most_common1 :: "('a \<times> nat) list \<Rightarrow> exn + 'a \<times> nat" where
  "most_common1 [] = Inl IndexError"
| "most_common1 (p # ps) = Inr (fold (\<lambda>q best. if snd q > snd best then q else best) ps p)"

text \<open>Lines 193-205: the row of a categorical column.\<close>

definition column_strings :: "'j builtins \<Rightarrow> 'j analyzer \<Rightarrow> string \<Rightarrow> exn + string list" where
  "column_strings B s col =
     (case list_index (headers s) col of
        Inl e \<Rightarrow> Inl e
      | Inr idx \<Rightarrow>
          (case map_exn (\<lambda>row. cell_at row idx) (data s) of
             Inl e \<Rightarrow> Inl e
           | Inr cells \<Rightarrow> Inr (map (str_cell B) (filter (\<lambda>c. c \<noteq> CNone) cells))))"

definition categorical_row :: "'j builtins \<Rightarrow> 'j analyzer \<Rightarrow> string \<Rightarrow> exn + report" where
  "categorical_row B s col =
     (case column_strings B s col of
        Inl e \<Rightarrow> Inl e
      | Inr vals \<Rightarrow>
          (if vals \<noteq> []
           then (case most_common1 (counter vals) of
                   Inl e \<Rightarrow> Inl e
                 | Inr most \<Rightarrow>
                     Inr (CategoricalRow (take 20 col) (length vals)
                            (length (data s) - length vals) (length (counter vals))
                            (take 20 (fst most)) (snd most)))
           else Inr (CategoricalRow (take 20 col) 0 (length (data s)) 0 ''None'' 0)))"

text \<open>
  The method, lines 155-209. The overview divides by the number of cells, which raises for
  a table without cells; the rows of a table are all computed before the table is
  printed. The method assigns to no attribute.
\<close>

definition print_table :: "report \<Rightarrow> exn + report list \<Rightarrow> unit io" where
  "print_table title rows =
     io_then (io_print title) (io_bind (io_lift rows) (\<lambda>rs. io_for rs io_print))"

definition statistics_report :: "'j builtins \<Rightarrow> 'j analyzer \<Rightarrow> unit io" where
  "statistics_report B s =
     io_then (io_print Step2Header)
       (let total_cells = length (data s) * length (headers s);
            missing = length (filter (\<lambda>c. c = CNone) (concat (data s)))
        in if total_cells = 0 then io_raise ZeroDivisionError
           else io_then
                  (io_print (DatasetOverview (length (data s)) (length (headers s))
                     (length (numeric_columns s)) (length (categorical_columns s)) missing
                     (100 * real missing / real total_cells)))
                  (io_then
                     (if numeric_columns s \<noteq> []
                      then print_table NumericHeader
                             (map_exn (numeric_row s) (numeric_columns s))
                      else io_ret ())
                     (io_then
                        (if categorical_columns s \<noteq> []
                         then print_table CategoricalHeader
                                (map_exn (categorical_row B s) (take 5 (categorical_columns s)))
                         else io_ret ())
                        (io_print StatsComputed))))"

definition compute_column_statistics :: "'j builtins \<Rightarrow> ('j analyzer, unit) action" where
  "compute_column_statistics B = (\<lambda>s. (s, statistics_report B s))"

subsection \<open>\<^verbatim>\<open>run_complete_analysis\<close>\<close>

text \<open>
  The class defines \<^verbatim>\<open>run_complete_analysis\<close> twice (lines 259 and 274); the second
  definition replaces the first and is the method of the class.

  The truth value of a cell, for \<^verbatim>\<open>if row[idx]\<close> of line 298.
\<close>

definition truthy :: "'j builtins \<Rightarrow> 'j cell \<Rightarrow> bool" where
  "truthy B c =
     (case c of CNone \<Rightarrow> False | CStr s \<Rightarrow> s \<noteq> [] | CInt k \<Rightarrow> k \<noteq> 0
      | CFloat r \<Rightarrow> r \<noteq> 0 | CJson j \<Rightarrow> truthy_json B j)"

text \<open>Lines 295-302: a categorical column is a candidate when the first 1000 rows hold
  between 2 and 20 different values of it.\<close>

definition candidate :: "'j builtins \<Rightarrow> 'j analyzer \<Rightarrow> string \<Rightarrow> exn + (string \<times> nat) list" where
  "candidate B s col =
     (if col \<notin> set [''page_id'', ''ad_id'']
      then (case list_index (headers s) col of
              Inl e \<Rightarrow> Inl e
            | Inr idx \<Rightarrow>
                (case map_exn (\<lambda>row. cell_at row idx) (take 1000 (data s)) of
                   Inl e \<Rightarrow> Inl e
                 | Inr cells \<Rightarrow>
                     (let vals = map (str_cell B) (filter (truthy B) cells);
                          unique = length (remdups vals)
                      in Inr (if vals \<noteq> [] \<and> 2 \<le> unique \<and> unique \<le> 20
                              then [(col, unique)] else []))))
      else Inr [])"

definition candidates :: "'j builtins \<Rightarrow> 'j analyzer \<Rightarrow> exn + (string \<times> nat) list" where
  "candidates B s =
     (case map_exn (candidate B s) (take 10 (categorical_columns s)) of
        Inl e \<Rightarrow> Inl e
      | Inr cs \<Rightarrow> Inr (concat cs))"

text \<open>Lines 304-307: the group report of the candidate with the fewest values.\<close>

definition candidate_analysis :: "'j builtins \<Rightarrow> ('j analyzer, unit) action" where
  "candidate_analysis B = (\<lambda>s.
     (case candidates B s of
        Inl e \<Rightarrow> (s, io_raise e)
      | Inr cs \<Rightarrow>
          (case sort_key snd cs of
             [] \<Rightarrow> (s, io_ret ())
           | best # others \<Rightarrow>
               perform_groupby_analysis B [fst best] (''Analysis by '' @ fst best) s)))"

definition load_step :: "'j builtins \<Rightarrow> source_file \<Rightarrow> ('j analyzer, unit) action" where
  "load_step B file = (\<lambda>s.
     (fst (load_and_clean_data B file s), snd (load_and_clean_data B file s), Inr ()))"

definition page_id_analysis :: "'j builtins \<Rightarrow> ('j analyzer, unit) action" where
  "page_id_analysis B = (\<lambda>s.
     if ''page_id'' \<in> set (headers s)
     then perform_groupby_analysis B [''page_id''] ''Analysis by PAGE_ID'' s
     else st_skip s)"

definition page_ad_analysis :: "'j builtins \<Rightarrow> ('j analyzer, unit) action" where
  "page_ad_analysis B = (\<lambda>s.
     if ''page_id'' \<in> set (headers s) \<and> ''ad_id'' \<in> set (headers s)
     then perform_groupby_analysis B [''page_id'', ''ad_id''] ''Analysis by PAGE_ID and AD_ID'' s
     else st_skip s)"

text \<open>Lines 279-311, the body of the \<^verbatim>\<open>try\<close>; the \<^verbatim>\<open>return\<close> after \<^verbatim>\<open>No data loaded!\<close> skips
  the rest.\<close>

definition after_load :: "'j builtins \<Rightarrow> ('j analyzer, unit) action" where
  "after_load B = (\<lambda>s.
     if data s = [] then st_print NoDataLoaded s
     else st_then (compute_column_statistics B)
            (st_then (page_id_analysis B)
               (st_then (page_ad_analysis B)
                  (st_then (candidate_analysis B) (st_print Completed)))) s)"

definition run_body :: "'j builtins \<Rightarrow> source_file \<Rightarrow> ('j analyzer, unit) action" where
  "run_body B file = st_then (load_step B file) (after_load B)"

definition run_complete_analysis :: "'j builtins \<Rightarrow> source_file \<Rightarrow> ('j analyzer, unit) action" where
  "run_complete_analysis B file = st_then (st_print Banner) (st_catch (run_body B file))"

text \<open>A method that leaves the attributes of the analyzer as they are.\<close>

definition read_only :: "('s, 'a) action \<Rightarrow> bool" where
  "read_only m = (\<forall>s. fst (m s) = s)"

section \<open>\<^verbatim>\<open>run_complete_analysis\<close> of the pandas and polars fb\_ads analyzers\<close>












text \<open>
  The step a report item belongs to: 0 the banner, 1 the load step, 2 the statistics,
  3 the group reports, 4 the end of the run.
\<close>

fun phase :: "report \<Rightarrow> nat" where
  "phase Banner = 0"
| "phase Step1Header = 1"
| "phase (LoadedRows n) = 1"
| "phase RemovingDuplicates = 1"
| "phase (LoadingSummary a b c d) = 1"
| "phase (LoadError e) = 1"
| "phase Step2Header = 2"
| "phase (DatasetOverview a b c d e f) = 2"
| "phase NumericHeader = 2"
| "phase (NumericRow a b c d e f g) = 2"
| "phase CategoricalHeader = 2"
| "phase (CategoricalRow a b c d e f) = 2"
| "phase StatsComputed = 2"
| "phase (Step3Header n) = 3"
| "phase (MissingColumns cs) = 3"
| "phase (GroupsCreated n) = 3"
| "phase (GroupSizes a b c d) = 3"
| "phase TopGroupsTitle = 3"
| "phase (TopGroup a b c) = 3"
| "phase NumericStatsTitle = 3"
| "phase (GroupTitle a b c) = 3"
| "phase (GroupNumeric a b c d) = 3"
| "phase NoDataLoaded = 4"
| "phase Completed = 4"
| "phase (ErrorMsg e) = 4"






text \<open>What a method prints from a state, and the property that the items it prints are
  in the order of their steps, between two given steps.\<close>

definition out_of :: "('s, 'a) action \<Rightarrow> 's \<Rightarrow> report list" where
  "out_of m s = fst (snd (m s))"

definition in_phases :: "nat \<Rightarrow> nat \<Rightarrow> ('s, 'a) action \<Rightarrow> bool" where
  "in_phases lo hi m =
     (\<forall>s. sorted (map phase (out_of m s))
          \<and> list_all (\<lambda>r. lo \<le> phase r \<and> phase r \<le> hi) (out_of m s))"

section \<open>The largest groups\<close>



subsection \<open>Example groupings\<close>






section \<open>Column classification in the pandas and polars fb\_ads analyzers\<close>











section \<open>Theorems\<close>


lemma TAB_neq_COMMA: "TAB \<noteq> COMMA" "COMMA \<noteq> TAB"
  by (simp_all add: TAB_def COMMA_def)

text \<open>
  Claim C10. The delimiter chosen by each of the three fb\_ads analyzers is a function of
  the first line of the file alone: it is the tab exactly when that line holds strictly
  more tabs than commas, the comma otherwise, and the three analyzers choose the same
  one; two files with the same first line get the same delimiter.
\<close>

theorem delimiter_from_first_line:
  "python_detect_delim f =
     (if str_count (readline f) TAB > str_count (readline f) COMMA then TAB else COMMA)
   \<and> (python_detect_delim f = TAB \<longleftrightarrow> str_count (readline f) TAB > str_count (readline f) COMMA)
   \<and> pandas_detect_delim f = python_detect_delim f
   \<and> polars_detect_delim f = python_detect_delim f
   \<and> (\<forall>g. readline g = readline f \<longrightarrow>
          python_detect_delim g = python_detect_delim f
        \<and> pandas_detect_delim g = pandas_detect_delim f
        \<and> polars_detect_delim g = polars_detect_delim f)"
  by (simp add: python_detect_delim_def pandas_detect_delim_def polars_detect_delim_def
      TAB_neq_COMMA)

theorem delimiter_from_first_line_witness:
  "python_detect_delim [CHR ''a'', TAB, CHR ''b'', TAB, CHR '','', CHR ''c'', LF, CHR ''1'', CHR '','', CHR '','', CHR '','', CHR ''2''] = TAB
   \<and> pandas_detect_delim [CHR ''a'', TAB, CHR ''b'', TAB, CHR '','', CHR ''c'', LF, CHR ''1'', CHR '','', CHR '','', CHR '','', CHR ''2''] = TAB
   \<and> polars_detect_delim [CHR ''a'', TAB, CHR ''b'', TAB, CHR '','', CHR ''c'', LF, CHR ''1'', CHR '','', CHR '','', CHR '','', CHR ''2''] = TAB
   \<and> python_detect_delim [CHR ''a'', TAB, CHR ''b'', TAB, CHR '','', CHR ''c'', CR, LF, CHR ''z''] = TAB"
proof -
  let ?f = "[CHR ''a'', TAB, CHR ''b'', TAB, CHR '','', CHR ''c'', LF, CHR ''1'', CHR '','', CHR '','', CHR '','', CHR ''2'']"
  let ?g = "[CHR ''a'', TAB, CHR ''b'', TAB, CHR '','', CHR ''c'', CR, LF, CHR ''z'']"
  have cnt: "str_count (readline ?f) TAB > str_count (readline ?f) COMMA"
    by (simp add: str_count_def TAB_def COMMA_def LF_def CR_def)
  have same: "readline ?g = readline ?f"
    by (simp add: TAB_def COMMA_def LF_def CR_def)
  from delimiter_from_first_line [of ?f] cnt same show ?thesis
    by (metis (no_types))
qed

subsection \<open>\<^verbatim>\<open>_fast_stats\<close>\<close>









subsection \<open>The instance of the library functions\<close>

lemma plain_builtins_sel:
  "csv_reader plain_builtins = plain_reader"
  "py_float plain_builtins = digits_float"
  "py_int plain_builtins = digits_int"
  by (simp_all add: plain_builtins_def)

subsection \<open>Column classification in \<^verbatim>\<open>load_and_clean_data\<close>\<close>





lemma sampled_values_nonempty:
  "(sampled_values i raw = []) = (column_vals i (take 1000 raw) = [])"
  by (simp add: sampled_values_def)

















subsection \<open>Removal of duplicates\<close>

lemma remove_duplicates_keys:
  "distinct (map (row_key B) (remove_duplicates B rows seen))
   \<and> set (map (row_key B) (remove_duplicates B rows seen)) \<inter> seen = {}"
  by (induction rows arbitrary: seen) (auto simp add: Let_def)

lemma remove_duplicates_no_identical_rows: "distinct (remove_duplicates B rows {})"
  using remove_duplicates_keys [of B rows "{}"] by (auto dest: distinct_map [THEN iffD1])

lemma pipe_file_rows:
  "csv_reader plain_builtins (python_detect_delim pipe_file) pipe_file
     = ([[''x'', ''y''], [''a|b'', ''c''], [''a'', ''b|c'']], None)"
proof -
  have d: "python_detect_delim pipe_file = COMMA"
    by (simp add: pipe_file_def python_detect_delim_def str_count_def LF_def COMMA_def
        TAB_def CR_def)
  show ?thesis
    unfolding d
    by (simp add: pipe_file_def plain_builtins_def plain_reader_def text_lines_def
        LF_def COMMA_def)
qed

lemma strip_pipe:
  "strip ''x'' = ''x''" "strip ''y'' = ''y''" "strip ''a|b'' = ''a|b''" "strip ''c'' = ''c''"
  "strip ''a'' = ''a''" "strip ''b|c'' = ''b|c''"
  by (simp_all add: strip_def is_space_def)

lemma pipe_file_table:
  "process_row plain_builtins [''x'', ''y''] [''a|b'', ''c''] = [CStr ''a|b'', CStr ''c'']"
  "process_row plain_builtins [''x'', ''y''] [''a'', ''b|c''] = [CStr ''a'', CStr ''b|c'']"
  by (simp_all add: process_row_def fit_row_def process_cell_def null_tokens_def
      complex_fields_def strip_pipe)

lemma pipe_file_types:
  "detect_types plain_builtins [(0, ''x''), (Suc 0, ''y'')]
     ([[CStr ''a|b'', CStr ''c''], [CStr ''a'', CStr ''b|c'']], [], [])
   = ([[CStr ''a|b'', CStr ''c''], [CStr ''a'', CStr ''b|c'']], [], [''x'', ''y''])"
  by (simp add: complex_fields_def column_vals_def sample_of_def numeric_share_ok_def
      float_ok_def plain_builtins_sel digits_float_def is_digit_def)

lemma pipe_file_keys:
  "row_key plain_builtins [CStr ''a|b'', CStr ''c''] = ''a|b|c''"
  "row_key plain_builtins [CStr ''a'', CStr ''b|c''] = ''a|b|c''"
  by (simp_all add: row_key_def str_cell_def)

lemma pipe_file_dedup:
  "remove_duplicates plain_builtins [[CStr ''a|b'', CStr ''c''], [CStr ''a'', CStr ''b|c'']] {}
     = [[CStr ''a|b'', CStr ''c'']]"
  by (simp add: pipe_file_keys)

text \<open>
  Claim C8 does not hold of the pure-Python analyzer: the removal of duplicates compares
  the strings \<^verbatim>\<open>'|'.join(...)\<close> of the rows, and two different rows can have the same
  string. The file below has the header \<^verbatim>\<open>x,y\<close> and the rows \<^verbatim>\<open>a|b,c\<close> and \<^verbatim>\<open>a,b|c\<close>: the
  second row is not a duplicate of the first and is removed, and the summary counts it
  as a duplicate.
\<close>

theorem duplicate_removal_drops_distinct_row:
  "csv_reader plain_builtins (python_detect_delim pipe_file) pipe_file
     = ([[''x'', ''y''], [''a|b'', ''c''], [''a'', ''b|c'']], None)
   \<and> load_and_clean_data plain_builtins (Text pipe_file) new_analyzer
     = (\<lparr>data = [[CStr ''a|b'', CStr ''c'']], headers = [''x'', ''y''],
          numeric_columns = [], categorical_columns = [''x'', ''y'']\<rparr>,
        [Step1Header, LoadedRows 2, RemovingDuplicates, LoadingSummary 1 1 0 2])"
  by (simp add: load_and_clean_data_def pipe_file_rows strip_pipe pipe_file_table
      new_analyzer_def pipe_file_types pipe_file_dedup Let_def
      del: detect_types.simps remove_duplicates.simps)

subsection \<open>Grouping\<close>














subsection \<open>The reporting steps change no attribute\<close>

lemma read_only_bind: "read_only m \<Longrightarrow> (\<And>x. read_only (f x)) \<Longrightarrow> read_only (st_bind m f)"
  by (auto simp add: read_only_def st_bind_def split: sum.splits)

lemma read_only_then: "read_only m \<Longrightarrow> read_only n \<Longrightarrow> read_only (st_then m n)"
  unfolding st_then_def by (rule read_only_bind)

lemma read_only_basic:
  "read_only (st_print r)" "read_only st_skip"
  "read_only (compute_column_statistics B)" "read_only (perform_groupby_analysis B cols name)"
  by (simp_all add: read_only_def st_print_def st_skip_def compute_column_statistics_def
      perform_groupby_analysis_def)

lemma read_only_groupbys:
  "read_only (page_id_analysis B)" "read_only (page_ad_analysis B)"
  "read_only (candidate_analysis B)"
  by (auto simp add: read_only_def page_id_analysis_def page_ad_analysis_def
      candidate_analysis_def perform_groupby_analysis_def st_skip_def
      split: sum.splits list.splits)

lemma read_only_after_load: "read_only (after_load B)"
proof -
  have "read_only (st_then (compute_column_statistics B)
            (st_then (page_id_analysis B)
               (st_then (page_ad_analysis B)
                  (st_then (candidate_analysis B) (st_print Completed)))))"
    by (intro read_only_then read_only_basic read_only_groupbys)
  then show ?thesis
    by (simp add: read_only_def after_load_def st_print_def)
qed

lemma st_catch_state: "fst (st_catch m s) = fst (m s)"
  by (simp add: st_catch_def split: sum.splits)

text \<open>
  Claim C7. The reporting steps are read-only: for every state of the pure-Python fb\_ads
  analyzer, \<^verbatim>\<open>compute_column_statistics\<close> and \<^verbatim>\<open>perform_groupby_analysis\<close> return with the
  table, the headers and the two column lists as they found them, whether they end
  normally or with an exception; so does everything \<^verbatim>\<open>run_complete_analysis\<close> does after
  the load step: the attributes when the run ends are those the load step left.
\<close>

theorem reporting_steps_read_only:
  "fst (compute_column_statistics B s) = s
   \<and> fst (perform_groupby_analysis B group_cols name s) = s
   \<and> fst (after_load B s) = s
   \<and> fst (run_complete_analysis B file s) = fst (load_and_clean_data B file s)"
proof -
  have a: "fst (after_load B t) = t" for t
    using read_only_after_load [of B] by (simp add: read_only_def)
  have "fst (run_body B file s) = fst (load_and_clean_data B file s)"
    by (simp add: run_body_def st_then_def st_bind_def load_step_def a)
  then have "fst (run_complete_analysis B file s) = fst (load_and_clean_data B file s)"
    by (simp add: run_complete_analysis_def st_then_def st_bind_def st_print_def io_print_def
        st_catch_state)
  with a show ?thesis
    by (simp add: compute_column_statistics_def perform_groupby_analysis_def)
qed

theorem reporting_steps_read_only_witness:
  "fst (compute_column_statistics plain_builtins small_table) = small_table
   \<and> fst (perform_groupby_analysis plain_builtins [''g''] ''Analysis by G'' small_table) = small_table
   \<and> fst (after_load plain_builtins small_table) = small_table"
  using reporting_steps_read_only [of plain_builtins small_table "[''g'']" "''Analysis by G''" Unreadable]
  by simp

subsection \<open>\<^verbatim>\<open>run_complete_analysis\<close>\<close>











subsection \<open>What each step prints\<close>















subsection \<open>The order of the steps\<close>







lemma ip_skip: "in_phases p p st_skip"
  by (simp add: in_phases_def out_of_def st_skip_def io_ret_def)





























subsection \<open>The top groups\<close>





















subsection \<open>The three classifications\<close>
















end
